theory Spec2Isabelle
  imports Main
begin

section \<open>Python strings\<close>

text \<open>
  A Python \<open>str\<close> is modelled as a \<open>string\<close> whose characters are the code points
  below 256 (Latin-1); code points above that are outside the model. The characters
  that Isabelle's string literals cannot hold are named by their code.
\<close>

abbreviation NL :: char where "NL \<equiv> CHR 0x0A"
abbreviation squote :: char where "squote \<equiv> CHR 0x27"
abbreviation dquote :: char where "dquote \<equiv> CHR 0x22"
abbreviation backslash :: char where "backslash \<equiv> CHR 0x5C"
abbreviation backtick :: char where "backtick \<equiv> CHR 0x60"

text \<open>\<open>str.isspace\<close> on one character, for the code points below 256.\<close>

definition isspace :: "char \<Rightarrow> bool" where
  "isspace c = (c \<in> set [CHR 0x09, CHR 0x0A, CHR 0x0B, CHR 0x0C, CHR 0x0D,
                          CHR 0x1C, CHR 0x1D, CHR 0x1E, CHR 0x1F, CHR 0x20,
                          CHR 0x85, CHR 0xA0])"

text \<open>\<open>s.strip()\<close>: leading and trailing whitespace removed.\<close>

definition strip :: "string \<Rightarrow> string" where
  "strip s = rev (dropWhile isspace (rev (dropWhile isspace s)))"

text \<open>\<open>str.lower\<close> on one character, for the code points below 256: the letters
  A-Z and the Latin-1 capitals (0xC0-0xDE without the multiplication sign 0xD7) move up
  by 32.\<close>

definition lower_char :: "char \<Rightarrow> char" where
  "lower_char c =
     (let n = (of_char c :: nat)
      in if (65 \<le> n \<and> n \<le> 90) \<or> (192 \<le> n \<and> n \<le> 222 \<and> n \<noteq> 215)
         then char_of (n + 32) else c)"

definition lower :: "string \<Rightarrow> string" where
  "lower s = map lower_char s"

text \<open>\<open>s.startswith(p)\<close> and \<open>s.endswith(p)\<close>.\<close>

definition startswith :: "string \<Rightarrow> string \<Rightarrow> bool" where
  "startswith s p = (take (length p) s = p)"

definition endswith :: "string \<Rightarrow> string \<Rightarrow> bool" where
  "endswith s p = (length p \<le> length s \<and> drop (length s - length p) s = p)"

text \<open>\<open>s.startswith((p1, ..., pn))\<close>: some element of the tuple is a prefix.\<close>

definition startswith_any :: "string \<Rightarrow> string list \<Rightarrow> bool" where
  "startswith_any s ps = list_ex (startswith s) ps"

text \<open>\<open>sub in s\<close>: \<open>sub\<close> occurs in \<open>s\<close> as a substring.\<close>

fun contains :: "string \<Rightarrow> string \<Rightarrow> bool" where
  "contains [] sub = (sub = [])"
| "contains (c # s) sub = (startswith (c # s) sub \<or> contains s sub)"

text \<open>\<open>s[a:-b]\<close> for \<open>b > 0\<close>: the slice from index \<open>a\<close> up to \<open>b\<close> characters
  before the end (empty when the two bounds cross), and \<open>s[a:]\<close> is \<open>drop a s\<close>.\<close>

definition slice :: "nat \<Rightarrow> nat \<Rightarrow> string \<Rightarrow> string" where
  "slice a b s = drop a (take (length s - b) s)"

text \<open>\<open>s.split('\n')\<close>: the pieces between line feeds; never an empty list.\<close>

fun split_lines :: "string \<Rightarrow> string list" where
  "split_lines [] = [[]]"
| "split_lines (c # s) =
     (if c = NL then [] # split_lines s
      else (case split_lines s of
              [] \<Rightarrow> [[c]]
            | l # ls \<Rightarrow> (c # l) # ls))"

section \<open>Output and input events\<close>

text \<open>
  What a run does to the outside world is recorded as a list of events, in order.
  Every \<open>print\<close> of the source is a message constructor that carries the values the
  source interpolates into the text.
\<close>

datatype stream = Stdout | Stderr

datatype message =
    Info_no_env                       \<comment> \<open>"Info: No '.env' file found and no environment variables set. ..."\<close>
  | Info_consider_copying string      \<comment> \<open>"Info: Consider copying '.env.example' to '.env' in .. and customizing it."\<close>
  | Sending_prompt string string      \<comment> \<open>" Sending prompt to Ollama (model: .., API: ..)..."\<close>
  | Error_model_failed                \<comment> \<open>"Error: The model failed to generate a valid command."\<close>
  | Raw_model_response string         \<comment> \<open>"Raw model response: .."\<close>
  | Error_could_not_connect string    \<comment> \<open>"Error: Could not connect to Ollama at .."\<close>
  | Make_sure_running                 \<comment> \<open>"Make sure Ollama is running and the API URL ..."\<close>
  | Error_timeout                     \<comment> \<open>"Error: Timeout waiting for Ollama response."\<close>
  | Error_in_request string           \<comment> \<open>"Error in Ollama request: .."\<close>
  | Ollama_error_details string       \<comment> \<open>"Ollama error details: .."\<close>
  | Error_decode_json                 \<comment> \<open>"Error: Could not decode JSON response from Ollama."\<close>
  | Received_response string          \<comment> \<open>"Received response: .."\<close>
  | Warning_uses_sudo                 \<comment> \<open>"Warning: Command uses 'sudo'."\<close>
  | Warning_could_not_parse string    \<comment> \<open>"Warning: Could not properly parse command '..' for safety check."\<close>
  | Executing string                  \<comment> \<open>" Executing: .."\<close>
  | Dashes                            \<comment> \<open>twenty dashes\<close>
  | Output_stdout                     \<comment> \<open>"Output (stdout):"\<close>
  | Errors_stderr                     \<comment> \<open>"Errors (stderr):"\<close>
  | Text string                       \<comment> \<open>captured text printed as it is\<close>
  | Warning_error_code int            \<comment> \<open>"Warning! Command finished with error code: .."\<close>
  | Error_trying_to_execute string    \<comment> \<open>"Error trying to execute the command: .."\<close>
  | Suggested_command string          \<comment> \<open>" Suggested command: .."\<close>
  | Warning_destructive_prompt        \<comment> \<open>" WARNING! This command appears destructive ... (y/N): "\<close>
  | Plain_prompt                      \<comment> \<open>" Do you want to execute this command? (y/N): "\<close>
  | Cancelled_by_user                 \<comment> \<open>" Execution cancelled by user."\<close>
  | Execution_cancelled               \<comment> \<open>" Execution cancelled."\<close>
  | Warning_executing_destructive     \<comment> \<open>" WARNING! Executing destructive command without confirmation due to -y flag."\<close>
  | Command_not_executed              \<comment> \<open>" Command not executed. Use -i flag to execute with confirmation."\<close>
  | Traceback string                  \<comment> \<open>the interpreter's report of an uncaught exception\<close>

datatype event =
    Print stream message              \<comment> \<open>\<open>print(.., file=..)\<close>\<close>
  | Input message                     \<comment> \<open>\<open>input(prompt)\<close>: the prompt is shown and a line is awaited\<close>
  | Run string                        \<comment> \<open>\<open>subprocess.run(command, shell=True, ..)\<close>\<close>

section \<open>Shell-word tokenization\<close>

text \<open>
  \<open>shlex.split(command)\<close> of the Python standard library, as \<open>is_destructive\<close> calls
  it: POSIX mode, \<open>whitespace_split\<close> set, no comment characters, no punctuation
  characters. The lexer's \<open>state\<close> field is \<open>None\<close> (past the end), a blank, \<open>'a'\<close>
  (inside a word), an opening quote character or the escape character.
\<close>

datatype lex_state = Past_end | Blank | Word | In_quote char | In_escape

datatype shlex_error = No_closing_quotation | No_escaped_character

abbreviation whitespace :: string where "whitespace \<equiv> [CHR '' '', CHR 0x09, CHR 0x0D, CHR 0x0A]"
abbreviation quotes :: string where "quotes \<equiv> [squote, dquote]"
abbreviation escape :: string where "escape \<equiv> [backslash]"
abbreviation escapedquotes :: string where "escapedquotes \<equiv> [dquote]"

text \<open>The end of \<open>read_token\<close>: an empty token that was never quoted is \<open>None\<close>,
  the end-of-input marker in POSIX mode.\<close>

definition token_result :: "bool \<Rightarrow> string \<Rightarrow> string option" where
  "token_result quoted token = (if \<not> quoted \<and> token = [] then None else Some token)"

text \<open>
  \<open>shlex.read_token\<close>: one pass of its \<open>while True\<close> loop per character read. The
  arguments are the lexer's \<open>state\<close>, the locals \<open>escapedstate\<close> and \<open>quoted\<close>, the
  token built so far and the unread input; the result is the token, the state left
  behind and the input left unread, or the \<open>ValueError\<close> raised. With
  \<open>whitespace_split\<close> set, a character that is no whitespace, escape or quote joins the
  word whether it is in \<open>wordchars\<close> or not, so the two branches are one here.
\<close>

fun read_token ::
  "lex_state \<Rightarrow> lex_state \<Rightarrow> bool \<Rightarrow> string \<Rightarrow> string
     \<Rightarrow> shlex_error + (string option \<times> lex_state \<times> string)" where
  "read_token Past_end escapedstate quoted token [] = Inr (token_result quoted [], Past_end, [])"
| "read_token Blank escapedstate quoted token [] = Inr (token_result quoted token, Past_end, [])"
| "read_token (In_quote q) escapedstate quoted token [] = Inl No_closing_quotation"
| "read_token In_escape escapedstate quoted token [] = Inl No_escaped_character"
| "read_token Word escapedstate quoted token [] = Inr (token_result quoted token, Past_end, [])"
| "read_token Past_end escapedstate quoted token (nextchar # rest) =
     Inr (token_result quoted [], Past_end, rest)"
| "read_token Blank escapedstate quoted token (nextchar # rest) =
     (if nextchar \<in> set whitespace then
        (if token \<noteq> [] \<or> quoted then Inr (token_result quoted token, Blank, rest)
         else read_token Blank escapedstate quoted token rest)
      else if nextchar \<in> set escape then read_token In_escape Word quoted token rest
      else if nextchar \<in> set quotes then read_token (In_quote nextchar) escapedstate quoted token rest
      else read_token Word escapedstate quoted [nextchar] rest)"
| "read_token (In_quote q) escapedstate quoted token (nextchar # rest) =
     (if nextchar = q then read_token Word escapedstate True token rest
      else if nextchar \<in> set escape \<and> q \<in> set escapedquotes
        then read_token In_escape (In_quote q) True token rest
      else read_token (In_quote q) escapedstate True (token @ [nextchar]) rest)"
| "read_token In_escape escapedstate quoted token (nextchar # rest) =
     read_token escapedstate escapedstate quoted
       ((if (\<exists>q. escapedstate = In_quote q) \<and> nextchar \<noteq> backslash
            \<and> escapedstate \<noteq> In_quote nextchar
         then token @ [backslash] else token) @ [nextchar]) rest"
| "read_token Word escapedstate quoted token (nextchar # rest) =
     (if nextchar \<in> set whitespace then
        (if token \<noteq> [] \<or> quoted then Inr (token_result quoted token, Blank, rest)
         else read_token Blank escapedstate quoted token rest)
      else if nextchar \<in> set quotes then read_token (In_quote nextchar) escapedstate quoted token rest
      else if nextchar \<in> set escape then read_token In_escape Word quoted token rest
      else read_token Word escapedstate quoted (token @ [nextchar]) rest)"

text \<open>A call of \<open>read_token\<close> that yields a token either consumes input or moves the
  lexer past the end: the iteration below terminates.\<close>

lemma read_token_progress:
  "read_token state escapedstate quoted token inp = Inr (Some t, state', rest') \<Longrightarrow>
     length rest' \<le> length inp \<and>
     (length rest' = length inp \<longrightarrow> state' = Past_end \<and> (state \<noteq> Past_end \<or> quoted))"
proof (induction state escapedstate quoted token inp rule: read_token.induct)
  case (7 escapedstate quoted token nextchar rest)
  then show ?case by (simp split: if_splits add: token_result_def) 
next
  case (8 q escapedstate quoted token nextchar rest)
  then show ?case by (simp split: if_splits) 
next
  case (9 escapedstate quoted token nextchar rest)
  then show ?case by (simp split: if_splits)
next
  case (10 escapedstate quoted token nextchar rest)
  then show ?case by (simp split: if_splits add: token_result_def)
qed (simp_all add: token_result_def split: if_splits)

text \<open>\<open>list(lex)\<close>: tokens are read, each with fresh locals, until \<open>read_token\<close>
  returns \<open>None\<close>; a \<open>ValueError\<close> ends the iteration.\<close>

function tokens :: "lex_state \<Rightarrow> string \<Rightarrow> shlex_error + string list" where
  "tokens state inp =
     (case read_token state Blank False [] inp of
        Inl e \<Rightarrow> Inl e
      | Inr (None, state', rest) \<Rightarrow> Inr []
      | Inr (Some t, state', rest) \<Rightarrow>
          (case tokens state' rest of
             Inl e \<Rightarrow> Inl e
           | Inr ts \<Rightarrow> Inr (t # ts)))"
  by pat_completeness auto
termination
proof (relation "measure (\<lambda>(state, inp). 2 * length inp + (if state = Past_end then 0 else 1))")
  show "wf (measure (\<lambda>(state, inp). 2 * length inp + (if state = Past_end then 0 else 1)))"
    by simp
next
  fix state inp x2 x1 x2a t state' rest
  assume "read_token state Blank False [] inp = Inr x2" "(x1, x2a) = x2"
    "x1 = Some t" "(state', rest) = x2a"
  then have "read_token state Blank False [] inp = Inr (Some t, state', rest)"
    by simp
  from read_token_progress [OF this]
  have "length rest \<le> length inp"
    and "length rest = length inp \<longrightarrow> state' = Past_end \<and> state \<noteq> Past_end"
    by simp_all
  then show "((state', rest), (state, inp))
          \<in> measure (\<lambda>(state, inp). 2 * length inp + (if state = Past_end then 0 else 1))"
    by (cases "length rest = length inp") simp_all
qed

definition shlex_split :: "string \<Rightarrow> shlex_error + string list" where
  "shlex_split s = tokens Blank s"

section \<open>Safety classification\<close>

definition DESTRUCTIVE_COMMANDS :: "string list" where
  "DESTRUCTIVE_COMMANDS =
     [''rm'', ''mv'', ''kill'', ''pkill'', ''killall'', ''shutdown'', ''reboot'', ''halt'',
      ''shred'', ''dd'', ''mkfs'', ''fdisk'', ''userdel'', ''groupdel'', ''chmod'', ''chown'',
      ''sudo'', ''su'', ''docker rm'', ''docker rmi'', ''kubectl delete'']"

text \<open>
  \<open>is_destructive(command)\<close>: the verdict and what it prints. The \<open>for\<close> loop over the
  table returns at the first entry that matches, so it is \<open>list_ex\<close>; the \<open>ValueError\<close>
  of the tokenization is caught and answered with \<open>True\<close>.
\<close>

definition is_destructive :: "string \<Rightarrow> bool \<times> event list" where
  "is_destructive command =
     (if command = [] then (False, [])
      else case shlex_split command of
        Inl e \<Rightarrow> (True, [Print Stderr (Warning_could_not_parse command)])
      | Inr command_parts \<Rightarrow>
          (case command_parts of
             [] \<Rightarrow> (False, [])
           | first_command # others \<Rightarrow>
               if first_command = ''sudo'' \<and> length command_parts > 1
               then (True, [Print Stdout Warning_uses_sudo])
               else (list_ex (\<lambda>destructive.
                        first_command = destructive
                        \<or> startswith (strip command) (destructive @ '' ''))
                      DESTRUCTIVE_COMMANDS, [])))"

section \<open>Configuration loading\<close>

definition DEFAULT_OLLAMA_API_URL :: string where
  "DEFAULT_OLLAMA_API_URL = ''http://localhost:11434/api/generate''"

definition DEFAULT_OLLAMA_MODEL :: string where
  "DEFAULT_OLLAMA_MODEL = ''gemma3:1b''"

text \<open>The process environment, and the assignments a \<open>.env\<close> file holds, are maps
  from variable names to values.\<close>

type_synonym environ = "string \<rightharpoonup> string"

text \<open>\<open>load_dotenv(dotenv_path=..)\<close> of python-dotenv, with its default
  \<open>override=False\<close>: a variable of the file is put into the environment unless the
  environment has it already.\<close>

definition load_dotenv :: "environ \<Rightarrow> environ \<Rightarrow> environ" where
  "load_dotenv dotenv env = (\<lambda>k. case env k of Some v \<Rightarrow> Some v | None \<Rightarrow> dotenv k)"

text \<open>\<open>os.getenv(key, default)\<close>.\<close>

definition getenv :: "environ \<Rightarrow> string \<Rightarrow> string \<Rightarrow> string" where
  "getenv env key dflt = (case env key of Some v \<Rightarrow> v | None \<Rightarrow> dflt)"

text \<open>
  \<open>load_configuration()\<close>. The file system is the argument \<open>dotenv\<close>: \<open>None\<close> when
  \<open>os.path.exists(dotenv_path)\<close> is false, otherwise the assignments of the file.
  The result is the pair returned, the environment left behind and what was printed.
\<close>

definition load_configuration ::
  "string \<Rightarrow> environ option \<Rightarrow> environ \<Rightarrow> (string \<times> string) \<times> environ \<times> event list" where
  "load_configuration script_dir dotenv env =
     (let env' = (case dotenv of Some assignments \<Rightarrow> load_dotenv assignments env | None \<Rightarrow> env);
          api_url = getenv env' ''OLLAMA_API_URL'' DEFAULT_OLLAMA_API_URL;
          default_model = getenv env' ''OLLAMA_DEFAULT_MODEL'' DEFAULT_OLLAMA_MODEL;
          using_defaults = (api_url = DEFAULT_OLLAMA_API_URL \<and> default_model = DEFAULT_OLLAMA_MODEL)
      in ((api_url, default_model), env',
          if dotenv = None \<and> using_defaults
          then [Print Stderr Info_no_env, Print Stderr (Info_consider_copying script_dir)]
          else []))"

section \<open>Command generation and response normalization\<close>

text \<open>
  What the single \<open>requests.post\<close>, \<open>raise_for_status\<close> and \<open>response.json()\<close> of
  \<open>query_ollama\<close> come to: one of the exceptions the function handles, or the decoded
  JSON document. Of a document only this matters: whether it is an object, and whether
  a member of it is a string. \<open>RequestException\<close> carries the exception's text and,
  when \<open>response.json()\<close> works in the handler, the error details.
\<close>

datatype json_value = JString string | JOther

datatype json_data = JObject "string \<rightharpoonup> json_value" | JNot_object

datatype http_outcome =
    ConnectionError
  | Timeout
  | RequestException string "string option"
  | JSONDecodeError string
  | Json json_data

datatype py_exception = AttributeError

definition skip_prefixes :: "string list" where
  "skip_prefixes = [''here is'', ''the command is'', [backtick], ''#'']"

text \<open>The \<open>for line in lines\<close> loop of \<open>query_ollama\<close>: the value of
  \<open>potential_command\<close> after it, which is \<open>""\<close> when no line qualifies.\<close>

fun first_candidate :: "string list \<Rightarrow> string" where
  "first_candidate [] = []"
| "first_candidate (line # lines) =
     (let clean_line = strip line
      in if clean_line \<noteq> [] \<and> \<not> startswith_any (lower clean_line) skip_prefixes then
           (if startswith clean_line [backtick, backtick, backtick]
                \<and> endswith clean_line [backtick, backtick, backtick] then
              (let clean_line = strip (slice 3 3 clean_line)
               in if startswith (lower clean_line) ''bash'' then strip (drop 4 clean_line)
                  else clean_line)
            else if startswith clean_line [backtick] \<and> endswith clean_line [backtick] then
              strip (slice 1 1 clean_line)
            else clean_line)
         else first_candidate lines)"

text \<open>The normalization of \<open>query_ollama\<close>, from the text of the \<open>response\<close> member
  to the value returned: the candidate command, or \<open>None\<close> with the two diagnostics.\<close>

definition normalize :: "string \<Rightarrow> string option \<times> event list" where
  "normalize response_text =
     (let command = strip response_text;
          lines = split_lines command;
          potential_command = first_candidate lines
      in if potential_command = [] \<or> contains potential_command ''ERROR:''
         then (None, [Print Stderr Error_model_failed, Print Stderr (Raw_model_response command)])
         else (Some potential_command, []))"

text \<open>
  \<open>query_ollama(prompt_text)\<close>, with the globals \<open>OLLAMA_API_URL\<close> and
  \<open>CURRENT_OLLAMA_MODEL\<close> as arguments. \<open>data.get("response", "")\<close> raises
  \<open>AttributeError\<close> when the document is no object, and \<open>.strip()\<close> raises it when
  the member is no string; no handler of the function catches it.
\<close>

definition query_ollama ::
  "string \<Rightarrow> string \<Rightarrow> string \<Rightarrow> http_outcome \<Rightarrow> (py_exception + string option) \<times> event list" where
  "query_ollama api_url current_model prompt_text outcome =
     (let sending = Print Stdout (Sending_prompt current_model api_url)
      in case outcome of
        ConnectionError \<Rightarrow>
          (Inr None, [sending, Print Stderr (Error_could_not_connect api_url),
                      Print Stderr Make_sure_running])
      | Timeout \<Rightarrow> (Inr None, [sending, Print Stderr Error_timeout])
      | RequestException e details \<Rightarrow>
          (Inr None, [sending, Print Stderr (Error_in_request e)] @
                     (case details of
                        Some error_details \<Rightarrow> [Print Stderr (Ollama_error_details error_details)]
                      | None \<Rightarrow> []))
      | JSONDecodeError response_text \<Rightarrow>
          (Inr None, [sending, Print Stderr Error_decode_json,
                      Print Stderr (Received_response response_text)])
      | Json JNot_object \<Rightarrow> (Inl AttributeError, [sending])
      | Json (JObject data) \<Rightarrow>
          (case data ''response'' of
             None \<Rightarrow> (case normalize [] of (r, evs) \<Rightarrow> (Inr r, sending # evs))
           | Some JOther \<Rightarrow> (Inl AttributeError, [sending])
           | Some (JString response_text) \<Rightarrow>
               (case normalize response_text of (r, evs) \<Rightarrow> (Inr r, sending # evs))))"

section \<open>Execution\<close>

text \<open>What \<open>subprocess.run\<close> comes to: the completed process with its captured
  output and return code, or an exception raised while launching it.\<close>

datatype run_outcome = Completed string string int | Raised string

text \<open>\<open>execute_command(command)\<close>; \<open>shell\<close> says what running a command gives.\<close>

definition execute_command :: "(string \<Rightarrow> run_outcome) \<Rightarrow> string \<Rightarrow> event list" where
  "execute_command shell command =
     [Print Stdout (Executing command), Print Stdout Dashes, Run command] @
     (case shell command of
        Completed out err returncode \<Rightarrow>
          (if out \<noteq> [] then [Print Stdout Output_stdout, Print Stdout (Text out)] else []) @
          (if err \<noteq> [] then [Print Stderr Errors_stderr, Print Stderr (Text err)] else []) @
          (if returncode \<noteq> 0 then [Print Stderr (Warning_error_code returncode)] else [])
      | Raised e \<Rightarrow> [Print Stderr (Error_trying_to_execute e)])"

section \<open>The main program\<close>

record args =
  prompt :: string
  interactive :: bool
  yes :: bool
  model :: "string option"

text \<open>What \<open>input\<close> comes to: the line typed, or one of the two exceptions caught.\<close>

datatype user_reply = Line string | EOFError | KeyboardInterrupt

text \<open>The confirmation either settles the variable \<open>execute\<close> or ends the process
  with \<open>sys.exit\<close>.\<close>

datatype gate_result = Execute bool | Sys_exit int

text \<open>The body of \<open>if args.interactive:\<close> in \<open>main\<close> after the classification: the
  four branches on \<open>destructive\<close> and \<open>args.yes\<close>.\<close>

definition confirm :: "bool \<Rightarrow> bool \<Rightarrow> user_reply \<Rightarrow> gate_result \<times> event list" where
  "confirm destructive yes_flag reply =
     (if destructive \<and> \<not> yes_flag then
        (case reply of
           Line answer \<Rightarrow>
             if lower answer = ''y'' then (Execute True, [Input Warning_destructive_prompt])
             else (Execute False, [Input Warning_destructive_prompt, Print Stdout Cancelled_by_user])
         | EOFError \<Rightarrow>
             (Sys_exit 0, [Input Warning_destructive_prompt, Print Stdout Execution_cancelled])
         | KeyboardInterrupt \<Rightarrow>
             (Sys_exit 0, [Input Warning_destructive_prompt, Print Stdout Execution_cancelled]))
      else if destructive \<and> yes_flag then
        (Execute True, [Print Stdout Warning_executing_destructive])
      else if \<not> yes_flag then
        (case reply of
           Line answer \<Rightarrow>
             if lower answer = ''y'' then (Execute True, [Input Plain_prompt])
             else (Execute False, [Input Plain_prompt, Print Stdout Cancelled_by_user])
         | EOFError \<Rightarrow> (Sys_exit 0, [Input Plain_prompt, Print Stdout Execution_cancelled])
         | KeyboardInterrupt \<Rightarrow> (Sys_exit 0, [Input Plain_prompt, Print Stdout Execution_cancelled]))
      else (Execute True, []))"

text \<open>The confirmation gate of \<open>main\<close>: from \<open>execute = False\<close> to the end of the
  \<open>if args.interactive: .. else: ..\<close> statement. The command is classified only in
  interactive mode.\<close>

definition confirmation_gate ::
  "bool \<Rightarrow> bool \<Rightarrow> string \<Rightarrow> user_reply \<Rightarrow> gate_result \<times> event list" where
  "confirmation_gate interactive_flag yes_flag command_to_run reply =
     (if interactive_flag then
        (case is_destructive command_to_run of
           (destructive, warnings) \<Rightarrow>
             (case confirm destructive yes_flag reply of
                (r, evs) \<Rightarrow> (r, warnings @ evs)))
      else (Execute False, [Print Stdout Command_not_executed]))"

text \<open>
  \<open>main()\<close> after the arguments are parsed: the exit status of the process and its
  events. \<open>config\<close> is the pair \<open>load_configuration\<close> returned when the module was
  loaded; an exception that nothing catches ends the process with status 1 and a
  traceback; returning from \<open>main\<close> ends it with status 0.
\<close>

definition main ::
  "string \<times> string \<Rightarrow> args \<Rightarrow> http_outcome \<Rightarrow> user_reply \<Rightarrow> (string \<Rightarrow> run_outcome)
     \<Rightarrow> int \<times> event list" where
  "main config a outcome reply shell =
     (let api_url = fst config;
          current_model = (case model a of Some m \<Rightarrow> m | None \<Rightarrow> snd config)
      in case query_ollama api_url current_model (prompt a) outcome of
        (Inl exn, evs) \<Rightarrow> (1, evs @ [Print Stderr (Traceback ''AttributeError'')])
      | (Inr None, evs) \<Rightarrow> (1, evs)
      | (Inr (Some command_to_run), evs) \<Rightarrow>
          if command_to_run = [] then (1, evs)
          else
            (case confirmation_gate (interactive a) (yes a) command_to_run reply of
               (Sys_exit status, gate_evs) \<Rightarrow>
                 (status, evs @ [Print Stdout (Suggested_command command_to_run)] @ gate_evs)
             | (Execute execute, gate_evs) \<Rightarrow>
                 (0, evs @ [Print Stdout (Suggested_command command_to_run)] @ gate_evs @
                     (if execute then execute_command shell command_to_run else []))))"

section \<open>Properties of the safety classifier\<close>

lemma shlex_split_empty: "shlex_split [] = Inr []"
  by (simp add: shlex_split_def token_result_def)

text \<open>The classifier on a command whose tokenization succeeds with at least one
  token.\<close>

lemma is_destructive_parsed:
  "shlex_split command = Inr (first_command # others) \<Longrightarrow>
     is_destructive command =
       (if first_command = ''sudo'' \<and> others \<noteq> [] then (True, [Print Stdout Warning_uses_sudo])
        else (first_command \<in> set DESTRUCTIVE_COMMANDS
              \<or> (\<exists>d \<in> set DESTRUCTIVE_COMMANDS. startswith (strip command) (d @ '' '')), []))"
proof -
  assume parsed: "shlex_split command = Inr (first_command # others)"
  then have "command \<noteq> []"
    using shlex_split_empty by auto
  with parsed show ?thesis
    unfolding is_destructive_def list_ex_iff by auto
qed

text \<open>
  C3: for every command whose shell-word tokenization succeeds with at least one
  token, the classifier answers destructive exactly when the first token is \<open>sudo\<close>
  with a further token after it (the elevated-privilege case, the only one that prints
  the \<open>sudo\<close> warning), or the first token is an entry of the table, or the trimmed
  command starts with an entry followed by a space. In particular \<open>rm -rf /tmp/x\<close>
  and \<open>sudo apt upgrade\<close> are destructive and \<open>ls -la\<close> is not.
\<close>

theorem is_destructive_iff:
  "(\<forall>command first_command others.
      shlex_split command = Inr (first_command # others) \<longrightarrow>
        (fst (is_destructive command) \<longleftrightarrow>
           (first_command = ''sudo'' \<and> others \<noteq> [])
           \<or> first_command \<in> set DESTRUCTIVE_COMMANDS
           \<or> (\<exists>d \<in> set DESTRUCTIVE_COMMANDS. startswith (strip command) (d @ '' '')))
        \<and> (Print Stdout Warning_uses_sudo \<in> set (snd (is_destructive command)) \<longleftrightarrow>
             first_command = ''sudo'' \<and> others \<noteq> []))
   \<and> is_destructive ''rm -rf /tmp/x'' = (True, [])
   \<and> is_destructive ''sudo apt upgrade'' = (True, [Print Stdout Warning_uses_sudo])
   \<and> is_destructive ''ls -la'' = (False, [])"
proof -
  have general: "(fst (is_destructive command) \<longleftrightarrow>
           (first_command = ''sudo'' \<and> others \<noteq> [])
           \<or> first_command \<in> set DESTRUCTIVE_COMMANDS
           \<or> (\<exists>d \<in> set DESTRUCTIVE_COMMANDS. startswith (strip command) (d @ '' '')))
        \<and> (Print Stdout Warning_uses_sudo \<in> set (snd (is_destructive command)) \<longleftrightarrow>
             first_command = ''sudo'' \<and> others \<noteq> [])"
    if "shlex_split command = Inr (first_command # others)" for command first_command others
    using is_destructive_parsed [OF that] by (cases "first_command = ''sudo''"; cases "others = []"; simp)
  have rm: "is_destructive ''rm -rf /tmp/x'' = (True, [])"
    by code_simp
  have sudo: "is_destructive ''sudo apt upgrade'' = (True, [Print Stdout Warning_uses_sudo])"
    by code_simp
  have ls: "is_destructive ''ls -la'' = (False, [])"
    by code_simp
  from general rm sudo ls show ?thesis
    by blast
qed

theorem is_destructive_iff_witness:
  "shlex_split ''kill -9 1'' = Inr [''kill'', ''-9'', ''1'']
   \<and> ''kill'' \<in> set DESTRUCTIVE_COMMANDS
   \<and> fst (is_destructive ''kill -9 1'')
   \<and> Print Stdout Warning_uses_sudo \<notin> set (snd (is_destructive ''kill -9 1''))"
proof -
  have parsed: "shlex_split ''kill -9 1'' = Inr [''kill'', ''-9'', ''1'']"
    by code_simp
  have entry: "''kill'' \<in> set DESTRUCTIVE_COMMANDS"
    by (simp add: DESTRUCTIVE_COMMANDS_def)
  from is_destructive_iff [THEN conjunct1, rule_format, OF parsed] parsed entry show ?thesis
    by simp
qed

text \<open>
  C4: for every command on which the tokenization fails, the classifier answers
  destructive and prints the warning that the command could not be parsed; it neither
  raises nor answers not destructive. \<open>echo "unterminated\<close> is such a command.
\<close>

theorem is_destructive_unparseable:
  "shlex_split command = Inl e \<Longrightarrow>
     is_destructive command = (True, [Print Stderr (Warning_could_not_parse command)])"
proof -
  assume failed: "shlex_split command = Inl e"
  then have "command \<noteq> []"
    using shlex_split_empty by auto
  with failed show ?thesis
    by (simp add: is_destructive_def)
qed

theorem is_destructive_unparseable_witness:
  "shlex_split (''echo '' @ [dquote] @ ''unterminated'') = Inl No_closing_quotation
   \<and> is_destructive (''echo '' @ [dquote] @ ''unterminated'')
       = (True, [Print Stderr (Warning_could_not_parse (''echo '' @ [dquote] @ ''unterminated''))])"
proof -
  have failed: "shlex_split (''echo '' @ [dquote] @ ''unterminated'') = Inl No_closing_quotation"
    by code_simp
  from failed is_destructive_unparseable [OF failed] show ?thesis
    by simp
qed

end
